theory Spec2Isabelle
  imports Main
begin

section \<open>The payment-method selector of the checkout\<close>

text \<open>
  The source is a React function component, \<open>PaymentMethodComponent\<close>, that looks at the
  payment method of its props and returns one JSX element (a component reference together
  with the props spread into it) or \<open>null\<close>, and a function
  \<open>mapToWithCheckoutPaymentMethodProps\<close> that reads the props injected by the checkout context.
  Strings are \<open>string\<close>, an optional member is an \<open>option\<close>, \<open>null\<close> is \<open>None\<close>, and
  \<open>===\<close> on strings is equality.
\<close>

subsection \<open>Data\<close>

text \<open>
  The descriptor \<open>PaymentMethod\<close> of the checkout SDK. The selector reads \<open>method.id\<close>,
  \<open>method.gateway\<close>, \<open>method.type\<close> and \<open>method.method\<close>; the fields carry the prefix
  \<open>method_\<close> because \<open>id\<close> is a constant of HOL. The member \<open>method\<close> of the
  props is the field \<open>props_method\<close>, \<open>method\<close> being a keyword of Isabelle. Whatever
  else the SDK keeps in a descriptor lives in the extension slot of the record
  (\<open>'m PaymentMethod_scheme\<close>).
\<close>

record PaymentMethod =
  method_id :: string
  method_gateway :: "string option"
  method_type :: string
  method_method :: string

text \<open>
  The three string enumerations the selector compares against are imported from modules
  that are not among the sources (\<open>./PaymentMethodId\<close>, \<open>./PaymentMethodProviderType\<close>,
  \<open>./PaymentMethodType\<close>). Their members are therefore parameters of the model: one record
  per enumeration, one field per member the selector mentions.
\<close>

record PaymentMethodId =
  Afterpay :: string
  AmazonPay :: string
  Braintree :: string
  BraintreeVenmo :: string
  CCAvenueMars :: string
  ChasePay :: string
  Checkoutcom :: string
  Clearpay :: string
  Humm :: string
  Laybuy :: string
  Masterpass :: string
  Moneris :: string
  Opy :: string
  PaypalCommerceCreditCards :: string
  PaypalExpress :: string
  PaypalPaymentsPro :: string
  Quadpay :: string
  Sezzle :: string
  SquareV2 :: string
  StripeUPE :: string
  StripeV3 :: string
  WorldpayAccess :: string
  Zip :: string

record PaymentMethodProviderType =
  Api :: string
  Hosted :: string
  PPSDK :: string

record PaymentMethodType =
  CreditCard :: string
  Paypal :: string
  PaypalCredit :: string

record enums =
  Id :: PaymentMethodId
  ProviderType :: PaymentMethodProviderType
  MethodType :: PaymentMethodType

text \<open>
  The props. \<open>PaymentMethodProps\<close> are the component's own props, and
  \<open>WithCheckoutPaymentMethodProps\<close> the ones injected from the checkout context. The selector
  is typed with the intersection of the two interfaces: the record of the own props whose
  extension slot holds the injected ones. Callbacks are never called by the code modelled
  here, only handed on, so a callback is a value of an arbitrary type \<open>'fn\<close>.
\<close>

record ('fn, 'm) PaymentMethodProps =
  props_method :: "'m PaymentMethod_scheme"
  isEmbedded :: "bool option"
  isUsingMultiShipping :: "bool option"
  onUnhandledError :: "'fn option"
  submitForm :: "'fn option"

record 'fn WithCheckoutPaymentMethodProps =
  isInitializing :: bool
  deinitializeCustomer :: 'fn
  deinitializePayment :: 'fn
  initializeCustomer :: 'fn
  initializePayment :: 'fn

type_synonym ('fn, 'm) ComponentProps =
  "('fn, 'm, 'fn WithCheckoutPaymentMethodProps) PaymentMethodProps_scheme"

text \<open>The components imported by the selector, and the element a JSX expression builds.\<close>

datatype component =
    AmazonPayV2PaymentMethod
  | BraintreeCreditCardPaymentMethod
  | CCAvenueMarsPaymentMethod
  | ChasePayPaymentMethod
  | HostedCreditCardPaymentMethod
  | HostedPaymentMethod
  | MasterpassPaymentMethod
  | MonerisPaymentMethod
  | OpyPaymentMethod
  | PaypalCommerceCreditCardPaymentMethod
  | PaypalExpressPaymentMethod
  | PaypalPaymentsProPaymentMethod
  | PPSDKPaymentMethod
  | SquarePaymentMethod
  | StripePaymentMethod
  | StripeUPEPaymentMethod
  | WorldpayCreditCardPaymentMethod

record 'p element =
  el_type :: component
  el_props :: 'p

text \<open>\<open><C {...props} />\<close>: the element of component \<open>C\<close> with a copy of \<open>props\<close>.\<close>

definition jsx :: "component \<Rightarrow> 'p \<Rightarrow> 'p element" where
  "jsx c props = \<lparr>el_type = c, el_props = props\<rparr>"

subsection \<open>The selector\<close>

definition PaymentMethodComponent ::
  "enums \<Rightarrow> ('fn, 'm, 'z) PaymentMethodProps_scheme
     \<Rightarrow> ('fn, 'm, 'z) PaymentMethodProps_scheme element option" where
  "PaymentMethodComponent E props =
    (let method = props_method props in
     if method_type method = PPSDK (ProviderType E) then
       Some (jsx PPSDKPaymentMethod props)
     else if method_id method = SquareV2 (Id E) then
       Some (jsx SquarePaymentMethod props)
     else if method_gateway method = Some (StripeV3 (Id E)) then
       Some (jsx StripePaymentMethod props)
     else if method_gateway method = Some (StripeUPE (Id E)) then
       Some (jsx StripeUPEPaymentMethod props)
     else if method_id method = AmazonPay (Id E) then
       Some (jsx AmazonPayV2PaymentMethod props)
     else if method_id method = CCAvenueMars (Id E) then
       Some (jsx CCAvenueMarsPaymentMethod props)
     else if method_id method = ChasePay (Id E) then
       Some (jsx ChasePayPaymentMethod props)
     else if method_gateway method = Some (Checkoutcom (Id E)) then
       (if method_id method = ''credit_card'' \<or> method_id method = ''card'' then
          Some (jsx HostedCreditCardPaymentMethod props)
        else
          Some (jsx HostedPaymentMethod props))
     else if method_id method = Masterpass (Id E) then
       Some (jsx MasterpassPaymentMethod props)
     else if method_id method = Braintree (Id E) then
       Some (jsx BraintreeCreditCardPaymentMethod props)
     else if method_id method = PaypalCommerceCreditCards (Id E) then
       Some (jsx PaypalCommerceCreditCardPaymentMethod props)
     else if method_id method = PaypalExpress (Id E) then
       Some (jsx PaypalExpressPaymentMethod props)
     else if method_type method \<noteq> Hosted (ProviderType E) \<and>
             method_id method = PaypalPaymentsPro (Id E) then
       Some (jsx PaypalPaymentsProPaymentMethod props)
     else if method_id method = Moneris (Id E) then
       Some (jsx MonerisPaymentMethod props)
     else if method_id method = WorldpayAccess (Id E) then
       Some (jsx WorldpayCreditCardPaymentMethod props)
     else if method_gateway method = Some (Afterpay (Id E)) \<or>
             method_gateway method = Some (Clearpay (Id E)) \<or>
             method_id method = BraintreeVenmo (Id E) \<or>
             method_id method = Humm (Id E) \<or>
             method_id method = Laybuy (Id E) \<or>
             method_id method = Quadpay (Id E) \<or>
             method_id method = Sezzle (Id E) \<or>
             method_id method = Zip (Id E) \<or>
             method_method method = Paypal (MethodType E) \<or>
             method_method method = PaypalCredit (MethodType E) \<or>
             method_type method = Hosted (ProviderType E) then
       Some (jsx HostedPaymentMethod props)
     else if method_id method = Opy (Id E) then
       Some (jsx OpyPaymentMethod props)
     else if method_method method = CreditCard (MethodType E) \<or>
             method_type method = Api (ProviderType E) then
       Some (jsx HostedCreditCardPaymentMethod props)
     else None)"

subsection \<open>The props injected from the checkout context\<close>

text \<open>
  \<open>CheckoutContextProps\<close> comes from the payment-integration API, which is not among the
  sources; the records below hold the members \<open>mapToWithCheckoutPaymentMethodProps\<close> reads:
  the four lifecycle methods of \<open>checkoutService\<close>, and the query
  \<open>checkoutState.statuses.isInitializingPayment\<close>, called with one argument.
\<close>

record 'fn CheckoutService =
  deinitializeCustomer :: 'fn
  deinitializePayment :: 'fn
  initializeCustomer :: 'fn
  initializePayment :: 'fn

record CheckoutStoreStatusSelector =
  isInitializingPayment :: "string \<Rightarrow> bool"

record CheckoutSelectors =
  statuses :: CheckoutStoreStatusSelector

record 'fn CheckoutContextProps =
  checkoutService :: "'fn CheckoutService"
  checkoutState :: CheckoutSelectors

definition mapToWithCheckoutPaymentMethodProps ::
  "'fn CheckoutContextProps \<Rightarrow> ('fn, 'm, 'z) PaymentMethodProps_scheme
     \<Rightarrow> 'fn WithCheckoutPaymentMethodProps" where
  "mapToWithCheckoutPaymentMethodProps context props =
    (let isInitializingPayment = isInitializingPayment (statuses (checkoutState context)) in
     \<lparr>isInitializing = isInitializingPayment (method_id (props_method props)),
      WithCheckoutPaymentMethodProps.deinitializeCustomer =
        CheckoutService.deinitializeCustomer (checkoutService context),
      WithCheckoutPaymentMethodProps.deinitializePayment =
        CheckoutService.deinitializePayment (checkoutService context),
      WithCheckoutPaymentMethodProps.initializeCustomer =
        CheckoutService.initializeCustomer (checkoutService context),
      WithCheckoutPaymentMethodProps.initializePayment =
        CheckoutService.initializePayment (checkoutService context)\<rparr>)"

subsection \<open>The selector as an ordered registry\<close>

text \<open>
  The selector is described as a component registry: an ordered list of pairs of a predicate
  over the descriptor and a component reference, looked up first match wins. \<open>registry\<close>
  lists the tests of \<open>PaymentMethodComponent\<close> in their textual order (the nested decision
  under the Checkoutcom gateway as two entries), and \<open>first_match\<close> is the lookup.
\<close>

type_synonym 'm rule = "('m PaymentMethod_scheme \<Rightarrow> bool) \<times> component"

definition registry :: "enums \<Rightarrow> 'm rule list" where
  "registry E =
    [(\<lambda>m. method_type m = PPSDK (ProviderType E), PPSDKPaymentMethod),
     (\<lambda>m. method_id m = SquareV2 (Id E), SquarePaymentMethod),
     (\<lambda>m. method_gateway m = Some (StripeV3 (Id E)), StripePaymentMethod),
     (\<lambda>m. method_gateway m = Some (StripeUPE (Id E)), StripeUPEPaymentMethod),
     (\<lambda>m. method_id m = AmazonPay (Id E), AmazonPayV2PaymentMethod),
     (\<lambda>m. method_id m = CCAvenueMars (Id E), CCAvenueMarsPaymentMethod),
     (\<lambda>m. method_id m = ChasePay (Id E), ChasePayPaymentMethod),
     (\<lambda>m. method_gateway m = Some (Checkoutcom (Id E)) \<and>
            (method_id m = ''credit_card'' \<or> method_id m = ''card''),
      HostedCreditCardPaymentMethod),
     (\<lambda>m. method_gateway m = Some (Checkoutcom (Id E)), HostedPaymentMethod),
     (\<lambda>m. method_id m = Masterpass (Id E), MasterpassPaymentMethod),
     (\<lambda>m. method_id m = Braintree (Id E), BraintreeCreditCardPaymentMethod),
     (\<lambda>m. method_id m = PaypalCommerceCreditCards (Id E),
      PaypalCommerceCreditCardPaymentMethod),
     (\<lambda>m. method_id m = PaypalExpress (Id E), PaypalExpressPaymentMethod),
     (\<lambda>m. method_type m \<noteq> Hosted (ProviderType E) \<and>
            method_id m = PaypalPaymentsPro (Id E),
      PaypalPaymentsProPaymentMethod),
     (\<lambda>m. method_id m = Moneris (Id E), MonerisPaymentMethod),
     (\<lambda>m. method_id m = WorldpayAccess (Id E), WorldpayCreditCardPaymentMethod),
     (\<lambda>m. method_gateway m = Some (Afterpay (Id E)) \<or>
            method_gateway m = Some (Clearpay (Id E)) \<or>
            method_id m = BraintreeVenmo (Id E) \<or>
            method_id m = Humm (Id E) \<or>
            method_id m = Laybuy (Id E) \<or>
            method_id m = Quadpay (Id E) \<or>
            method_id m = Sezzle (Id E) \<or>
            method_id m = Zip (Id E) \<or>
            method_method m = Paypal (MethodType E) \<or>
            method_method m = PaypalCredit (MethodType E) \<or>
            method_type m = Hosted (ProviderType E),
      HostedPaymentMethod),
     (\<lambda>m. method_id m = Opy (Id E), OpyPaymentMethod),
     (\<lambda>m. method_method m = CreditCard (MethodType E) \<or>
            method_type m = Api (ProviderType E),
      HostedCreditCardPaymentMethod)]"

fun first_match :: "'m rule list \<Rightarrow> 'm PaymentMethod_scheme \<Rightarrow> component option" where
  "first_match [] m = None"
| "first_match ((p, c) # rs) m = (if p m then Some c else first_match rs m)"

subsection \<open>An instance of the enumerations\<close>

text \<open>
  To evaluate the selector on concrete descriptors the parameters need values. The instance
  below gives every member of an enumeration a string of its own; no literal of the source
  (\<open>credit_card\<close>, \<open>card\<close>) is among them.
\<close>

definition sample_ids :: PaymentMethodId where
  "sample_ids =
    \<lparr>Afterpay = ''afterpay'', AmazonPay = ''amazonpay'', Braintree = ''braintree'',
     BraintreeVenmo = ''braintreevenmo'', CCAvenueMars = ''ccavenuemars'',
     ChasePay = ''chasepay'', Checkoutcom = ''checkoutcom'', Clearpay = ''clearpay'',
     Humm = ''humm'', Laybuy = ''laybuy'', Masterpass = ''masterpass'',
     Moneris = ''moneris'', Opy = ''opy'',
     PaypalCommerceCreditCards = ''paypalcommercecreditcards'',
     PaypalExpress = ''paypalexpress'', PaypalPaymentsPro = ''paypal'',
     Quadpay = ''quadpay'', Sezzle = ''sezzle'', SquareV2 = ''squarev2'',
     StripeUPE = ''stripeupe'', StripeV3 = ''stripev3'',
     WorldpayAccess = ''worldpayaccess'', Zip = ''zip''\<rparr>"

definition sample_provider_types :: PaymentMethodProviderType where
  "sample_provider_types =
    \<lparr>Api = ''PAYMENT_TYPE_API'', Hosted = ''PAYMENT_TYPE_HOSTED'',
     PPSDK = ''PAYMENT_TYPE_SDK''\<rparr>"

definition sample_method_types :: PaymentMethodType where
  "sample_method_types =
    \<lparr>CreditCard = ''credit-card'', Paypal = ''paypal'', PaypalCredit = ''paypal-credit''\<rparr>"

definition sample_enums :: enums where
  "sample_enums =
    \<lparr>Id = sample_ids, ProviderType = sample_provider_types,
     MethodType = sample_method_types\<rparr>"

text \<open>
  A descriptor with the four fields given, and the props around it: no optional member
  set, not initializing, and the callbacks numbered 1 to 4.
\<close>

definition descriptor :: "string \<Rightarrow> string option \<Rightarrow> string \<Rightarrow> string \<Rightarrow> PaymentMethod" where
  "descriptor i g t m =
    \<lparr>method_id = i, method_gateway = g, method_type = t, method_method = m\<rparr>"

definition props_of :: "PaymentMethod \<Rightarrow> (nat, unit) ComponentProps" where
  "props_of d =
    \<lparr>props_method = d, isEmbedded = None, isUsingMultiShipping = None,
     onUnhandledError = None, submitForm = None,
     isInitializing = False,
     WithCheckoutPaymentMethodProps.deinitializeCustomer = 1,
     WithCheckoutPaymentMethodProps.deinitializePayment = 2,
     WithCheckoutPaymentMethodProps.initializeCustomer = 3,
     WithCheckoutPaymentMethodProps.initializePayment = 4\<rparr>"

text \<open>The same descriptor in other props: every optional member set, other callbacks.\<close>

definition props_initializing :: "PaymentMethod \<Rightarrow> (nat, unit) ComponentProps" where
  "props_initializing d =
    \<lparr>props_method = d, isEmbedded = Some True, isUsingMultiShipping = Some False,
     onUnhandledError = Some 5, submitForm = Some 6,
     isInitializing = True,
     WithCheckoutPaymentMethodProps.deinitializeCustomer = 7,
     WithCheckoutPaymentMethodProps.deinitializePayment = 8,
     WithCheckoutPaymentMethodProps.initializeCustomer = 9,
     WithCheckoutPaymentMethodProps.initializePayment = 10\<rparr>"

text \<open>The descriptors the selector is evaluated on below.\<close>

definition moneris_card :: PaymentMethod where
  "moneris_card = descriptor ''moneris'' None ''PAYMENT_TYPE_API'' ''credit-card''"

definition checkoutcom_card :: PaymentMethod where
  "checkoutcom_card =
     descriptor ''card'' (Some ''checkoutcom'') ''PAYMENT_TYPE_API'' ''credit-card''"

definition paypal_credit_button :: PaymentMethod where
  "paypal_credit_button =
     descriptor ''braintreepaypalcredit'' None ''PAYMENT_TYPE_API'' ''paypal-credit''"

definition cheque :: PaymentMethod where
  "cheque = descriptor ''cheque'' None ''PAYMENT_TYPE_MANUAL'' ''offline''"

definition braintree_via_checkoutcom :: PaymentMethod where
  "braintree_via_checkoutcom =
     descriptor ''braintree'' (Some ''checkoutcom'') ''PAYMENT_TYPE_API'' ''credit-card''"

definition ppsdk_via_checkoutcom :: PaymentMethod where
  "ppsdk_via_checkoutcom =
     descriptor ''credit_card'' (Some ''checkoutcom'') ''PAYMENT_TYPE_SDK'' ''credit-card''"

definition moneris_via_checkoutcom :: PaymentMethod where
  "moneris_via_checkoutcom =
     descriptor ''moneris'' (Some ''checkoutcom'') ''PAYMENT_TYPE_API'' ''credit-card''"


definition amazonpay_via_checkoutcom :: PaymentMethod where
  "amazonpay_via_checkoutcom =
     descriptor ''amazonpay'' (Some ''checkoutcom'') ''PAYMENT_TYPE_API'' ''credit-card''"

definition ppsdk_square :: PaymentMethod where
  "ppsdk_square =
     descriptor ''squarev2'' (Some ''checkoutcom'') ''PAYMENT_TYPE_SDK'' ''credit-card''"

definition gift_certificate :: PaymentMethod where
  "gift_certificate = descriptor ''giftcertificate'' None ''PAYMENT_TYPE_OFFLINE'' ''cheque''"

definition ccavenue_via_checkoutcom :: PaymentMethod where
  "ccavenue_via_checkoutcom =
     descriptor ''ccavenuemars'' (Some ''checkoutcom'') ''PAYMENT_TYPE_API'' ''credit-card''"

section \<open>Properties of the selector\<close>

lemmas sample_defs = sample_enums_def sample_ids_def sample_provider_types_def
  sample_method_types_def descriptor_def props_of_def

lemmas input_defs = moneris_card_def checkoutcom_card_def paypal_credit_button_def
  cheque_def braintree_via_checkoutcom_def ppsdk_via_checkoutcom_def
  moneris_via_checkoutcom_def amazonpay_via_checkoutcom_def ppsdk_square_def
  gift_certificate_def ccavenue_via_checkoutcom_def

subsection \<open>The selector is the first match of the registry\<close>

lemma first_match_None: "(first_match rs m = None) = (\<forall>r\<in>set rs. \<not> fst r m)"
  by (induction rs) (auto split: if_splits)

lemma if_then_if:
  "(if a then (if b then x else y) else z) = (if a \<and> b then x else if a then y else z)"
  by simp

text \<open>
  Both sides are rewritten to the same chain of conditionals; no conditional is split, the
  chain is nineteen tests long.
\<close>

lemma selector_first_match:
  "PaymentMethodComponent E props =
     map_option (\<lambda>c. jsx c props) (first_match (registry E) (props_method props))"
  by (simp add: PaymentMethodComponent_def registry_def Let_def if_then_if
        if_distrib [of "map_option f" for f]
      split del: if_split cong del: if_weak_cong)

lemma jsx_inject: "(jsx c props = jsx c' props) = (c = c')"
  by (simp add: jsx_def)

lemma selects_iff_first_match:
  "(PaymentMethodComponent E props = Some (jsx c props)) =
     (first_match (registry E) (props_method props) = Some c)"
  by (cases "first_match (registry E) (props_method props)")
     (simp_all add: selector_first_match jsx_inject)

lemma first_match_Some: "(\<exists>c. first_match rs m = Some c) = (\<exists>r\<in>set rs. fst r m)"
  using first_match_None [of rs m] by auto

lemma first_match_append:
  "first_match (rs @ rs') m =
     (case first_match rs m of None \<Rightarrow> first_match rs' m | Some c \<Rightarrow> Some c)"
  by (induction rs) auto

lemma first_match_butlast:
  assumes "first_match (butlast rs) m = Some c"
  shows "first_match rs m = Some c"
proof (cases "rs = []")
  case True
  with assms show ?thesis by simp
next
  case False
  then have "rs = butlast rs @ [last rs]" by simp
  then have "first_match rs m = first_match (butlast rs @ [last rs]) m" by simp
  with assms show ?thesis by (simp add: first_match_append)
qed

text \<open>
  Which test selected a component: the equation between the chain and a component is
  rewritten to the conjunction of the test of the component and the negations of the tests
  before it.
\<close>

lemma if_eq_distrib: "((if c then a else b) = v) = (if c then a = v else b = v)"
  by simp

lemma if_False_conj: "(if c then False else b) = (\<not> c \<and> b)"
  by simp

lemma if_True_disj: "(if c then True else b) = (c \<or> b)"
  by simp

lemmas chain_simps = registry_def if_eq_distrib if_False_conj if_True_disj

lemma distinct_both: "distinct xs \<Longrightarrow> distinct xs \<and> distinct (rev xs)"
  by simp

text \<open>An id with a component of its own satisfies a test placed before the fallback.\<close>

lemma id_rule_before_fallback:
  assumes "method_id m \<in>
     {SquareV2 (Id E), AmazonPay (Id E), CCAvenueMars (Id E), ChasePay (Id E),
      Masterpass (Id E), Braintree (Id E), PaypalCommerceCreditCards (Id E),
      PaypalExpress (Id E), PaypalPaymentsPro (Id E), Moneris (Id E),
      WorldpayAccess (Id E), Opy (Id E)}"
  shows "\<exists>r\<in>set (butlast (registry E)). fst r m"
proof (cases "method_type m = Hosted (ProviderType E)")
  case True
  then show ?thesis by (simp add: registry_def)
next
  case False
  with assms show ?thesis by (auto simp: registry_def)
qed

subsection \<open>Totality\<close>

text \<open>
  C1. For every descriptor, with or without a gateway, the selector returns either the
  element of exactly one component or \<open>null\<close>; it has no failing branch, and \<open>null\<close> is
  returned exactly when no test of the chain holds for the descriptor.
\<close>

theorem selector_total:
  "((\<exists>!c. PaymentMethodComponent E props = Some (jsx c props)) \<or>
      PaymentMethodComponent E props = None) \<and>
   ((PaymentMethodComponent E props = None) =
      (\<forall>r\<in>set (registry E). \<not> fst r (props_method props)))"
proof -
  let ?r = "first_match (registry E) (props_method props)"
  have eq: "PaymentMethodComponent E props = map_option (\<lambda>c. jsx c props) ?r"
    by (rule selector_first_match)
  have a: "(\<exists>!c. PaymentMethodComponent E props = Some (jsx c props)) \<or>
      PaymentMethodComponent E props = None"
    by (cases ?r) (auto simp: eq jsx_inject)
  have b: "(PaymentMethodComponent E props = None) =
      (\<forall>r\<in>set (registry E). \<not> fst r (props_method props))"
    by (simp only: eq first_match_None option.map_disc_iff)
  from a b show ?thesis by (rule conjI)
qed

theorem selector_total_witness:
  "PaymentMethodComponent sample_enums (props_of gift_certificate) = None"
proof -
  have h: "\<forall>r\<in>set (registry sample_enums).
      \<not> fst r (props_method (props_of gift_certificate))"
    by (simp add: registry_def input_defs sample_defs)
  with selector_total [of sample_enums "props_of gift_certificate"] show ?thesis
    by blast
qed

subsection \<open>The PPSDK provider type\<close>

text \<open>
  C2. A descriptor whose \<open>type\<close> is the PPSDK provider type gets the PPSDK component,
  whatever its \<open>id\<close>, \<open>gateway\<close> and \<open>method\<close> are: the test is the first of the chain.
\<close>

theorem ppsdk_type_selects_ppsdk:
  "method_type (props_method props) = PPSDK (ProviderType E) \<Longrightarrow>
   PaymentMethodComponent E props = Some (jsx PPSDKPaymentMethod props)"
  by (simp add: PaymentMethodComponent_def)

theorem ppsdk_type_selects_ppsdk_witness:
  "method_type (props_method (props_of ppsdk_square)) = PPSDK (ProviderType sample_enums) \<and>
   method_id (props_method (props_of ppsdk_square)) = SquareV2 (Id sample_enums) \<and>
   PaymentMethodComponent sample_enums (props_of ppsdk_square) =
     Some (jsx PPSDKPaymentMethod (props_of ppsdk_square))"
proof -
  have h1: "method_type (props_method (props_of ppsdk_square)) = PPSDK (ProviderType sample_enums)"
    by (simp add: input_defs sample_defs)
  have h2: "method_id (props_method (props_of ppsdk_square)) = SquareV2 (Id sample_enums)"
    by (simp add: input_defs sample_defs)
  from h1 h2 ppsdk_type_selects_ppsdk [OF h1] show ?thesis
    by blast
qed

subsection \<open>The identifiers with a component of their own\<close>

text \<open>
  C3, as stated, fails. The Checkoutcom gateway is tested after the ids SquareV2, AmazonPay,
  CCAvenueMars and ChasePay but before Masterpass, Braintree, PaypalCommerceCreditCards,
  PaypalExpress, PaypalPaymentsPro, Moneris and WorldpayAccess: the Braintree id under the
  Checkoutcom gateway gets the generic hosted component, not the Braintree one.
\<close>

theorem rule2_id_under_checkoutcom_counterexample:
  "method_id braintree_via_checkoutcom = Braintree (Id sample_enums) \<and>
   method_gateway braintree_via_checkoutcom = Some (Checkoutcom (Id sample_enums)) \<and>
   method_type braintree_via_checkoutcom \<noteq> PPSDK (ProviderType sample_enums) \<and>
   PaymentMethodComponent sample_enums (props_of braintree_via_checkoutcom) =
     Some (jsx HostedPaymentMethod (props_of braintree_via_checkoutcom)) \<and>
   PaymentMethodComponent sample_enums (props_of braintree_via_checkoutcom) \<noteq>
     Some (jsx BraintreeCreditCardPaymentMethod (props_of braintree_via_checkoutcom))"
  by (simp add: PaymentMethodComponent_def input_defs sample_defs jsx_def split del: if_split)

text \<open>
  C3, amended. Let the eleven identifiers tested on \<open>id\<close> have pairwise different values,
  and StripeV3 and StripeUPE different values. The component of a rule-2 identifier is
  selected exactly when the type is not PPSDK, the identifier is matched on the one field
  the source tests, and no earlier test holds: the Square component exactly when the id is
  SquareV2; the Stripe (StripeUPE) component exactly when the gateway is StripeV3
  (StripeUPE) and the id is not SquareV2; the components of AmazonPay, CCAvenueMars and
  ChasePay exactly when the id is theirs and the gateway is neither StripeV3 nor StripeUPE;
  the components of Masterpass, Braintree, PaypalCommerceCreditCards, PaypalExpress, Moneris
  and WorldpayAccess exactly when the id is theirs and the gateway is none of StripeV3,
  StripeUPE and Checkoutcom; the component of PaypalPaymentsPro exactly when, besides, the
  type is not Hosted. The Checkoutcom gateway thus excludes the last seven ids and not the
  first four: its nested decision is tested after ChasePay and before Masterpass.
\<close>

theorem identifier_rules_in_order:
  assumes "distinct [SquareV2 (Id E), AmazonPay (Id E), CCAvenueMars (Id E), ChasePay (Id E),
           Masterpass (Id E), Braintree (Id E), PaypalCommerceCreditCards (Id E),
           PaypalExpress (Id E), PaypalPaymentsPro (Id E), Moneris (Id E),
           WorldpayAccess (Id E)]"
    and "StripeV3 (Id E) \<noteq> StripeUPE (Id E)"
  shows
  "(PaymentMethodComponent E props = Some (jsx SquarePaymentMethod props)) =
     (method_type (props_method props) \<noteq> PPSDK (ProviderType E) \<and>
      method_id (props_method props) = SquareV2 (Id E)) \<and>
   (PaymentMethodComponent E props = Some (jsx StripePaymentMethod props)) =
     (method_type (props_method props) \<noteq> PPSDK (ProviderType E) \<and>
      method_gateway (props_method props) = Some (StripeV3 (Id E)) \<and>
      method_id (props_method props) \<noteq> SquareV2 (Id E)) \<and>
   (PaymentMethodComponent E props = Some (jsx StripeUPEPaymentMethod props)) =
     (method_type (props_method props) \<noteq> PPSDK (ProviderType E) \<and>
      method_gateway (props_method props) = Some (StripeUPE (Id E)) \<and>
      method_id (props_method props) \<noteq> SquareV2 (Id E)) \<and>
   (PaymentMethodComponent E props = Some (jsx AmazonPayV2PaymentMethod props)) =
     (method_type (props_method props) \<noteq> PPSDK (ProviderType E) \<and>
      method_id (props_method props) = AmazonPay (Id E) \<and>
      method_gateway (props_method props) \<notin>
        {Some (StripeV3 (Id E)), Some (StripeUPE (Id E))}) \<and>
   (PaymentMethodComponent E props = Some (jsx CCAvenueMarsPaymentMethod props)) =
     (method_type (props_method props) \<noteq> PPSDK (ProviderType E) \<and>
      method_id (props_method props) = CCAvenueMars (Id E) \<and>
      method_gateway (props_method props) \<notin>
        {Some (StripeV3 (Id E)), Some (StripeUPE (Id E))}) \<and>
   (PaymentMethodComponent E props = Some (jsx ChasePayPaymentMethod props)) =
     (method_type (props_method props) \<noteq> PPSDK (ProviderType E) \<and>
      method_id (props_method props) = ChasePay (Id E) \<and>
      method_gateway (props_method props) \<notin>
        {Some (StripeV3 (Id E)), Some (StripeUPE (Id E))}) \<and>
   (PaymentMethodComponent E props = Some (jsx MasterpassPaymentMethod props)) =
     (method_type (props_method props) \<noteq> PPSDK (ProviderType E) \<and>
      method_id (props_method props) = Masterpass (Id E) \<and>
      method_gateway (props_method props) \<notin>
        {Some (StripeV3 (Id E)), Some (StripeUPE (Id E)), Some (Checkoutcom (Id E))}) \<and>
   (PaymentMethodComponent E props = Some (jsx BraintreeCreditCardPaymentMethod props)) =
     (method_type (props_method props) \<noteq> PPSDK (ProviderType E) \<and>
      method_id (props_method props) = Braintree (Id E) \<and>
      method_gateway (props_method props) \<notin>
        {Some (StripeV3 (Id E)), Some (StripeUPE (Id E)), Some (Checkoutcom (Id E))}) \<and>
   (PaymentMethodComponent E props =
      Some (jsx PaypalCommerceCreditCardPaymentMethod props)) =
     (method_type (props_method props) \<noteq> PPSDK (ProviderType E) \<and>
      method_id (props_method props) = PaypalCommerceCreditCards (Id E) \<and>
      method_gateway (props_method props) \<notin>
        {Some (StripeV3 (Id E)), Some (StripeUPE (Id E)), Some (Checkoutcom (Id E))}) \<and>
   (PaymentMethodComponent E props = Some (jsx PaypalExpressPaymentMethod props)) =
     (method_type (props_method props) \<noteq> PPSDK (ProviderType E) \<and>
      method_id (props_method props) = PaypalExpress (Id E) \<and>
      method_gateway (props_method props) \<notin>
        {Some (StripeV3 (Id E)), Some (StripeUPE (Id E)), Some (Checkoutcom (Id E))}) \<and>
   (PaymentMethodComponent E props = Some (jsx PaypalPaymentsProPaymentMethod props)) =
     (method_type (props_method props) \<notin> {PPSDK (ProviderType E), Hosted (ProviderType E)} \<and>
      method_id (props_method props) = PaypalPaymentsPro (Id E) \<and>
      method_gateway (props_method props) \<notin>
        {Some (StripeV3 (Id E)), Some (StripeUPE (Id E)), Some (Checkoutcom (Id E))}) \<and>
   (PaymentMethodComponent E props = Some (jsx MonerisPaymentMethod props)) =
     (method_type (props_method props) \<noteq> PPSDK (ProviderType E) \<and>
      method_id (props_method props) = Moneris (Id E) \<and>
      method_gateway (props_method props) \<notin>
        {Some (StripeV3 (Id E)), Some (StripeUPE (Id E)), Some (Checkoutcom (Id E))}) \<and>
   (PaymentMethodComponent E props = Some (jsx WorldpayCreditCardPaymentMethod props)) =
     (method_type (props_method props) \<noteq> PPSDK (ProviderType E) \<and>
      method_id (props_method props) = WorldpayAccess (Id E) \<and>
      method_gateway (props_method props) \<notin>
        {Some (StripeV3 (Id E)), Some (StripeUPE (Id E)), Some (Checkoutcom (Id E))})"
  using distinct_both [OF assms(1)] assms(2) assms(2) [symmetric]
  by (intro conjI iffI; simp add: selects_iff_first_match chain_simps
        split del: if_split cong del: if_weak_cong)

theorem identifier_rules_in_order_witness:
  "method_type (props_method (props_of amazonpay_via_checkoutcom)) \<noteq>
     PPSDK (ProviderType sample_enums) \<and>
   method_id (props_method (props_of amazonpay_via_checkoutcom)) =
     AmazonPay (Id sample_enums) \<and>
   method_gateway (props_method (props_of amazonpay_via_checkoutcom)) =
     Some (Checkoutcom (Id sample_enums)) \<and>
   PaymentMethodComponent sample_enums (props_of amazonpay_via_checkoutcom) =
     Some (jsx AmazonPayV2PaymentMethod (props_of amazonpay_via_checkoutcom))"
proof -
  have h1: "method_type (props_method (props_of amazonpay_via_checkoutcom)) \<noteq>
      PPSDK (ProviderType sample_enums)"
    by (simp add: input_defs sample_defs)
  have h2: "distinct [SquareV2 (Id sample_enums), AmazonPay (Id sample_enums),
      CCAvenueMars (Id sample_enums), ChasePay (Id sample_enums),
      Masterpass (Id sample_enums), Braintree (Id sample_enums),
      PaypalCommerceCreditCards (Id sample_enums), PaypalExpress (Id sample_enums),
      PaypalPaymentsPro (Id sample_enums), Moneris (Id sample_enums),
      WorldpayAccess (Id sample_enums)]"
    by (simp add: sample_defs)
  have h3: "StripeV3 (Id sample_enums) \<noteq> StripeUPE (Id sample_enums)"
    by (simp add: sample_defs)
  have h4: "method_id (props_method (props_of amazonpay_via_checkoutcom)) =
      AmazonPay (Id sample_enums)"
    by (simp add: input_defs sample_defs)
  have h5: "method_gateway (props_method (props_of amazonpay_via_checkoutcom)) =
      Some (Checkoutcom (Id sample_enums))"
    by (simp add: input_defs sample_defs)
  have h6: "method_gateway (props_method (props_of amazonpay_via_checkoutcom)) \<notin>
      {Some (StripeV3 (Id sample_enums)), Some (StripeUPE (Id sample_enums))}"
    by (simp add: input_defs sample_defs)
  from identifier_rules_in_order [OF h2 h3, of "props_of amazonpay_via_checkoutcom"] h1 h4 h6
  have "PaymentMethodComponent sample_enums (props_of amazonpay_via_checkoutcom) =
     Some (jsx AmazonPayV2PaymentMethod (props_of amazonpay_via_checkoutcom))"
    by blast
  with h1 h4 h5 show ?thesis by blast
qed

subsection \<open>The Checkoutcom gateway\<close>

text \<open>
  C4, as stated, fails: the test of the gateway comes eighth. A PPSDK descriptor under the
  Checkoutcom gateway with the id \<open>credit_card\<close> gets the PPSDK component.
\<close>

theorem checkoutcom_credit_card_counterexample:
  "method_gateway ppsdk_via_checkoutcom = Some (Checkoutcom (Id sample_enums)) \<and>
   method_id ppsdk_via_checkoutcom = ''credit_card'' \<and>
   PaymentMethodComponent sample_enums (props_of ppsdk_via_checkoutcom) =
     Some (jsx PPSDKPaymentMethod (props_of ppsdk_via_checkoutcom)) \<and>
   PaymentMethodComponent sample_enums (props_of ppsdk_via_checkoutcom) \<noteq>
     Some (jsx HostedCreditCardPaymentMethod (props_of ppsdk_via_checkoutcom))"
  by (simp add: PaymentMethodComponent_def input_defs sample_defs jsx_def split del: if_split)

text \<open>
  C4, amended. For a descriptor under the Checkoutcom gateway that no earlier test matches
  (the type is not PPSDK, the id is none of SquareV2, AmazonPay, CCAvenueMars and ChasePay,
  and the value of Checkoutcom is not that of StripeV3 or StripeUPE), the id \<open>credit_card\<close>
  or \<open>card\<close> selects the hosted credit card component and any other id the generic hosted
  component.
\<close>

theorem checkoutcom_after_early_rules:
  "method_gateway (props_method props) = Some (Checkoutcom (Id E)) \<Longrightarrow>
   method_type (props_method props) \<noteq> PPSDK (ProviderType E) \<Longrightarrow>
   method_id (props_method props) \<notin>
     {SquareV2 (Id E), AmazonPay (Id E), CCAvenueMars (Id E), ChasePay (Id E)} \<Longrightarrow>
   Checkoutcom (Id E) \<notin> {StripeV3 (Id E), StripeUPE (Id E)} \<Longrightarrow>
   (method_id (props_method props) \<in> {''credit_card'', ''card''} \<longrightarrow>
      PaymentMethodComponent E props = Some (jsx HostedCreditCardPaymentMethod props)) \<and>
   (method_id (props_method props) \<notin> {''credit_card'', ''card''} \<longrightarrow>
      PaymentMethodComponent E props = Some (jsx HostedPaymentMethod props))"
  by (simp add: PaymentMethodComponent_def Let_def split del: if_split)

theorem checkoutcom_after_early_rules_witness:
  "method_gateway (props_method (props_of checkoutcom_card)) = Some (Checkoutcom (Id sample_enums)) \<and>
   method_id (props_method (props_of checkoutcom_card)) \<in> {''credit_card'', ''card''} \<and>
   PaymentMethodComponent sample_enums (props_of checkoutcom_card) =
     Some (jsx HostedCreditCardPaymentMethod (props_of checkoutcom_card))"
proof -
  have h1: "method_gateway (props_method (props_of checkoutcom_card)) =
      Some (Checkoutcom (Id sample_enums))"
    by (simp add: input_defs sample_defs)
  have h2: "method_type (props_method (props_of checkoutcom_card)) \<noteq>
      PPSDK (ProviderType sample_enums)"
    by (simp add: input_defs sample_defs)
  have h3: "method_id (props_method (props_of checkoutcom_card)) \<notin>
      {SquareV2 (Id sample_enums), AmazonPay (Id sample_enums),
       CCAvenueMars (Id sample_enums), ChasePay (Id sample_enums)}"
    by (simp add: input_defs sample_defs)
  have h4: "Checkoutcom (Id sample_enums) \<notin>
      {StripeV3 (Id sample_enums), StripeUPE (Id sample_enums)}"
    by (simp add: sample_defs)
  have h5: "method_id (props_method (props_of checkoutcom_card)) \<in> {''credit_card'', ''card''}"
    by (simp add: input_defs sample_defs)
  from checkoutcom_after_early_rules [OF h1 h2 h3 h4] h5
  have "PaymentMethodComponent sample_enums (props_of checkoutcom_card) =
     Some (jsx HostedCreditCardPaymentMethod (props_of checkoutcom_card))"
    by blast
  with h1 h5 show ?thesis by blast
qed

subsection \<open>The order of the chain and the credit card modality\<close>

text \<open>
  C5, as stated, fails: a descriptor with the credit card modality and the Moneris id, under
  the Checkoutcom gateway, gets the generic hosted component. That is neither the fallback
  nor the Moneris component.
\<close>

theorem credit_card_moneris_counterexample:
  "method_method moneris_via_checkoutcom = CreditCard (MethodType sample_enums) \<and>
   method_id moneris_via_checkoutcom = Moneris (Id sample_enums) \<and>
   PaymentMethodComponent sample_enums (props_of moneris_via_checkoutcom) =
     Some (jsx HostedPaymentMethod (props_of moneris_via_checkoutcom)) \<and>
   PaymentMethodComponent sample_enums (props_of moneris_via_checkoutcom) \<noteq>
     Some (jsx MonerisPaymentMethod (props_of moneris_via_checkoutcom))"
  by (simp add: PaymentMethodComponent_def input_defs sample_defs jsx_def split del: if_split)

text \<open>
  C5, amended. Take a descriptor with the credit card modality whose id is one of the ids
  with a component of their own (the eleven ids of rule 2, or Opy). Some test placed before
  the credit card fallback holds, and the component selected is the one of the first such
  test in the textual order; the fallback, tested last, takes no part. With identifiers and
  modalities of pairwise different values, the component selected is the one of the id
  itself exactly when no earlier test holds: the type is not PPSDK (nothing more for
  SquareV2) and, for AmazonPay, CCAvenueMars and ChasePay, the gateway is neither StripeV3
  nor StripeUPE; for Masterpass, Braintree, PaypalCommerceCreditCards, PaypalExpress,
  Moneris and WorldpayAccess, the gateway is none of StripeV3, StripeUPE and Checkoutcom;
  for PaypalPaymentsPro, besides, the type is not Hosted; for Opy the type is not Hosted
  either and the gateway is none of StripeV3, StripeUPE, Checkoutcom, Afterpay and Clearpay.
\<close>

theorem credit_card_does_not_preempt:
  assumes "method_method (props_method props) = CreditCard (MethodType E)"
    and "method_id (props_method props) \<in>
     {SquareV2 (Id E), AmazonPay (Id E), CCAvenueMars (Id E), ChasePay (Id E),
      Masterpass (Id E), Braintree (Id E), PaypalCommerceCreditCards (Id E),
      PaypalExpress (Id E), PaypalPaymentsPro (Id E), Moneris (Id E),
      WorldpayAccess (Id E), Opy (Id E)}"
  shows
  "(\<exists>c. first_match (butlast (registry E)) (props_method props) = Some c \<and>
        PaymentMethodComponent E props = Some (jsx c props)) \<and>
   (distinct [SquareV2 (Id E), AmazonPay (Id E), CCAvenueMars (Id E), ChasePay (Id E),
      Masterpass (Id E), Braintree (Id E), PaypalCommerceCreditCards (Id E),
      PaypalExpress (Id E), PaypalPaymentsPro (Id E), Moneris (Id E),
      WorldpayAccess (Id E), BraintreeVenmo (Id E), Humm (Id E), Laybuy (Id E),
      Quadpay (Id E), Sezzle (Id E), Zip (Id E), Opy (Id E)] \<and>
    distinct [CreditCard (MethodType E), Paypal (MethodType E), PaypalCredit (MethodType E)]
    \<longrightarrow>
    (PaymentMethodComponent E props = Some (jsx SquarePaymentMethod props)) =
      (method_id (props_method props) = SquareV2 (Id E) \<and>
       method_type (props_method props) \<noteq> PPSDK (ProviderType E)) \<and>
    (PaymentMethodComponent E props = Some (jsx AmazonPayV2PaymentMethod props)) =
      (method_id (props_method props) = AmazonPay (Id E) \<and>
       method_type (props_method props) \<noteq> PPSDK (ProviderType E) \<and>
       method_gateway (props_method props) \<notin>
         {Some (StripeV3 (Id E)), Some (StripeUPE (Id E))}) \<and>
    (PaymentMethodComponent E props = Some (jsx CCAvenueMarsPaymentMethod props)) =
      (method_id (props_method props) = CCAvenueMars (Id E) \<and>
       method_type (props_method props) \<noteq> PPSDK (ProviderType E) \<and>
       method_gateway (props_method props) \<notin>
         {Some (StripeV3 (Id E)), Some (StripeUPE (Id E))}) \<and>
    (PaymentMethodComponent E props = Some (jsx ChasePayPaymentMethod props)) =
      (method_id (props_method props) = ChasePay (Id E) \<and>
       method_type (props_method props) \<noteq> PPSDK (ProviderType E) \<and>
       method_gateway (props_method props) \<notin>
         {Some (StripeV3 (Id E)), Some (StripeUPE (Id E))}) \<and>
    (PaymentMethodComponent E props = Some (jsx MasterpassPaymentMethod props)) =
      (method_id (props_method props) = Masterpass (Id E) \<and>
       method_type (props_method props) \<noteq> PPSDK (ProviderType E) \<and>
       method_gateway (props_method props) \<notin>
         {Some (StripeV3 (Id E)), Some (StripeUPE (Id E)), Some (Checkoutcom (Id E))}) \<and>
    (PaymentMethodComponent E props = Some (jsx BraintreeCreditCardPaymentMethod props)) =
      (method_id (props_method props) = Braintree (Id E) \<and>
       method_type (props_method props) \<noteq> PPSDK (ProviderType E) \<and>
       method_gateway (props_method props) \<notin>
         {Some (StripeV3 (Id E)), Some (StripeUPE (Id E)), Some (Checkoutcom (Id E))}) \<and>
    (PaymentMethodComponent E props =
       Some (jsx PaypalCommerceCreditCardPaymentMethod props)) =
      (method_id (props_method props) = PaypalCommerceCreditCards (Id E) \<and>
       method_type (props_method props) \<noteq> PPSDK (ProviderType E) \<and>
       method_gateway (props_method props) \<notin>
         {Some (StripeV3 (Id E)), Some (StripeUPE (Id E)), Some (Checkoutcom (Id E))}) \<and>
    (PaymentMethodComponent E props = Some (jsx PaypalExpressPaymentMethod props)) =
      (method_id (props_method props) = PaypalExpress (Id E) \<and>
       method_type (props_method props) \<noteq> PPSDK (ProviderType E) \<and>
       method_gateway (props_method props) \<notin>
         {Some (StripeV3 (Id E)), Some (StripeUPE (Id E)), Some (Checkoutcom (Id E))}) \<and>
    (PaymentMethodComponent E props = Some (jsx PaypalPaymentsProPaymentMethod props)) =
      (method_id (props_method props) = PaypalPaymentsPro (Id E) \<and>
       method_type (props_method props) \<notin>
         {PPSDK (ProviderType E), Hosted (ProviderType E)} \<and>
       method_gateway (props_method props) \<notin>
         {Some (StripeV3 (Id E)), Some (StripeUPE (Id E)), Some (Checkoutcom (Id E))}) \<and>
    (PaymentMethodComponent E props = Some (jsx MonerisPaymentMethod props)) =
      (method_id (props_method props) = Moneris (Id E) \<and>
       method_type (props_method props) \<noteq> PPSDK (ProviderType E) \<and>
       method_gateway (props_method props) \<notin>
         {Some (StripeV3 (Id E)), Some (StripeUPE (Id E)), Some (Checkoutcom (Id E))}) \<and>
    (PaymentMethodComponent E props = Some (jsx WorldpayCreditCardPaymentMethod props)) =
      (method_id (props_method props) = WorldpayAccess (Id E) \<and>
       method_type (props_method props) \<noteq> PPSDK (ProviderType E) \<and>
       method_gateway (props_method props) \<notin>
         {Some (StripeV3 (Id E)), Some (StripeUPE (Id E)), Some (Checkoutcom (Id E))}) \<and>
    (PaymentMethodComponent E props = Some (jsx OpyPaymentMethod props)) =
      (method_id (props_method props) = Opy (Id E) \<and>
       method_type (props_method props) \<notin>
         {PPSDK (ProviderType E), Hosted (ProviderType E)} \<and>
       method_gateway (props_method props) \<notin>
         {Some (StripeV3 (Id E)), Some (StripeUPE (Id E)), Some (Checkoutcom (Id E)),
          Some (Afterpay (Id E)), Some (Clearpay (Id E))}))"
proof -
  from id_rule_before_fallback [OF assms(2)]
  obtain c where c: "first_match (butlast (registry E)) (props_method props) = Some c"
    using first_match_Some by blast
  from first_match_butlast [OF c]
  have "PaymentMethodComponent E props = Some (jsx c props)"
    by (simp add: selector_first_match)
  with c have before: "\<exists>c. first_match (butlast (registry E)) (props_method props) = Some c \<and>
        PaymentMethodComponent E props = Some (jsx c props)"
    by blast
  show ?thesis
    apply (rule conjI)
     apply (rule before)
    apply (insert assms(1))
    apply (rule impI, elim conjE, (drule distinct_both)+)
    apply (intro conjI iffI; simp add: selects_iff_first_match chain_simps
        split del: if_split cong del: if_weak_cong)
    done
qed

theorem credit_card_does_not_preempt_witness:
  "method_method (props_method (props_of ccavenue_via_checkoutcom)) =
     CreditCard (MethodType sample_enums) \<and>
   method_id (props_method (props_of ccavenue_via_checkoutcom)) =
     CCAvenueMars (Id sample_enums) \<and>
   method_gateway (props_method (props_of ccavenue_via_checkoutcom)) =
     Some (Checkoutcom (Id sample_enums)) \<and>
   PaymentMethodComponent sample_enums (props_of ccavenue_via_checkoutcom) =
     Some (jsx CCAvenueMarsPaymentMethod (props_of ccavenue_via_checkoutcom))"
proof -
  have h1: "method_method (props_method (props_of ccavenue_via_checkoutcom)) =
      CreditCard (MethodType sample_enums)"
    by (simp add: input_defs sample_defs)
  have h2: "method_id (props_method (props_of ccavenue_via_checkoutcom)) =
      CCAvenueMars (Id sample_enums)"
    by (simp add: input_defs sample_defs)
  have h3: "method_id (props_method (props_of ccavenue_via_checkoutcom)) \<in>
     {SquareV2 (Id sample_enums), AmazonPay (Id sample_enums),
      CCAvenueMars (Id sample_enums), ChasePay (Id sample_enums),
      Masterpass (Id sample_enums), Braintree (Id sample_enums),
      PaypalCommerceCreditCards (Id sample_enums), PaypalExpress (Id sample_enums),
      PaypalPaymentsPro (Id sample_enums), Moneris (Id sample_enums),
      WorldpayAccess (Id sample_enums), Opy (Id sample_enums)}"
    by (simp add: input_defs sample_defs)
  have h4: "distinct [SquareV2 (Id sample_enums), AmazonPay (Id sample_enums),
      CCAvenueMars (Id sample_enums), ChasePay (Id sample_enums),
      Masterpass (Id sample_enums), Braintree (Id sample_enums),
      PaypalCommerceCreditCards (Id sample_enums), PaypalExpress (Id sample_enums),
      PaypalPaymentsPro (Id sample_enums), Moneris (Id sample_enums),
      WorldpayAccess (Id sample_enums), BraintreeVenmo (Id sample_enums),
      Humm (Id sample_enums), Laybuy (Id sample_enums), Quadpay (Id sample_enums),
      Sezzle (Id sample_enums), Zip (Id sample_enums), Opy (Id sample_enums)]"
    by (simp add: sample_defs)
  have h5: "distinct [CreditCard (MethodType sample_enums), Paypal (MethodType sample_enums),
      PaypalCredit (MethodType sample_enums)]"
    by (simp add: sample_defs)
  have h6: "method_type (props_method (props_of ccavenue_via_checkoutcom)) \<noteq>
      PPSDK (ProviderType sample_enums)"
    by (simp add: input_defs sample_defs)
  have h7: "method_gateway (props_method (props_of ccavenue_via_checkoutcom)) \<notin>
      {Some (StripeV3 (Id sample_enums)), Some (StripeUPE (Id sample_enums))}"
    by (simp add: input_defs sample_defs)
  have h8: "method_gateway (props_method (props_of ccavenue_via_checkoutcom)) =
      Some (Checkoutcom (Id sample_enums))"
    by (simp add: input_defs sample_defs)
  from credit_card_does_not_preempt [OF h1 h3] h4 h5 h2 h6 h7
  have "PaymentMethodComponent sample_enums (props_of ccavenue_via_checkoutcom) =
     Some (jsx CCAvenueMarsPaymentMethod (props_of ccavenue_via_checkoutcom))"
    by blast
  with h1 h2 h8 show ?thesis by blast
qed

subsection \<open>The PayPal credit modality\<close>

text \<open>
  C6. A descriptor with the PayPal credit modality that no earlier test matches (the type
  is not PPSDK, the id is none of the ids tested before, the gateway none of StripeV3,
  StripeUPE and Checkoutcom) gets the generic hosted component: the disjunction is tested
  before the credit card fallback.
\<close>

theorem paypal_credit_selects_hosted:
  "method_method (props_method props) = PaypalCredit (MethodType E) \<Longrightarrow>
   method_type (props_method props) \<noteq> PPSDK (ProviderType E) \<Longrightarrow>
   method_id (props_method props) \<notin>
     {SquareV2 (Id E), AmazonPay (Id E), CCAvenueMars (Id E), ChasePay (Id E),
      Masterpass (Id E), Braintree (Id E), PaypalCommerceCreditCards (Id E),
      PaypalExpress (Id E), PaypalPaymentsPro (Id E), Moneris (Id E),
      WorldpayAccess (Id E)} \<Longrightarrow>
   method_gateway (props_method props) \<notin>
     {Some (StripeV3 (Id E)), Some (StripeUPE (Id E)), Some (Checkoutcom (Id E))} \<Longrightarrow>
   PaymentMethodComponent E props = Some (jsx HostedPaymentMethod props)"
  by (simp add: PaymentMethodComponent_def Let_def split del: if_split)

theorem paypal_credit_selects_hosted_witness:
  "method_method (props_method (props_of paypal_credit_button)) =
     PaypalCredit (MethodType sample_enums) \<and>
   PaymentMethodComponent sample_enums (props_of paypal_credit_button) =
     Some (jsx HostedPaymentMethod (props_of paypal_credit_button))"
proof -
  have h1: "method_method (props_method (props_of paypal_credit_button)) =
      PaypalCredit (MethodType sample_enums)"
    by (simp add: input_defs sample_defs)
  have h2: "method_type (props_method (props_of paypal_credit_button)) \<noteq>
      PPSDK (ProviderType sample_enums)"
    by (simp add: input_defs sample_defs)
  have h3: "method_id (props_method (props_of paypal_credit_button)) \<notin>
     {SquareV2 (Id sample_enums), AmazonPay (Id sample_enums),
      CCAvenueMars (Id sample_enums), ChasePay (Id sample_enums),
      Masterpass (Id sample_enums), Braintree (Id sample_enums),
      PaypalCommerceCreditCards (Id sample_enums), PaypalExpress (Id sample_enums),
      PaypalPaymentsPro (Id sample_enums), Moneris (Id sample_enums),
      WorldpayAccess (Id sample_enums)}"
    by (simp add: input_defs sample_defs)
  have h4: "method_gateway (props_method (props_of paypal_credit_button)) \<notin>
     {Some (StripeV3 (Id sample_enums)), Some (StripeUPE (Id sample_enums)),
      Some (Checkoutcom (Id sample_enums))}"
    by (simp add: input_defs sample_defs)
  from h1 paypal_credit_selects_hosted [OF h1 h2 h3 h4] show ?thesis
    by (rule conjI)
qed

subsection \<open>No render\<close>

text \<open>
  C7. A descriptor that matches no test (the type is none of PPSDK, Hosted and Api, the id
  none of the ids the chain names, the gateway none of the gateways it names, the modality
  none of PayPal, PayPal credit and credit card) gets \<open>null\<close>.
\<close>

theorem unmatched_selects_null:
  "method_type (props_method props) \<notin>
     {PPSDK (ProviderType E), Hosted (ProviderType E), Api (ProviderType E)} \<Longrightarrow>
   method_id (props_method props) \<notin>
     {SquareV2 (Id E), AmazonPay (Id E), CCAvenueMars (Id E), ChasePay (Id E),
      Masterpass (Id E), Braintree (Id E), PaypalCommerceCreditCards (Id E),
      PaypalExpress (Id E), PaypalPaymentsPro (Id E), Moneris (Id E),
      WorldpayAccess (Id E), BraintreeVenmo (Id E), Humm (Id E), Laybuy (Id E),
      Quadpay (Id E), Sezzle (Id E), Zip (Id E), Opy (Id E)} \<Longrightarrow>
   method_gateway (props_method props) \<notin>
     {Some (StripeV3 (Id E)), Some (StripeUPE (Id E)), Some (Checkoutcom (Id E)),
      Some (Afterpay (Id E)), Some (Clearpay (Id E))} \<Longrightarrow>
   method_method (props_method props) \<notin>
     {Paypal (MethodType E), PaypalCredit (MethodType E), CreditCard (MethodType E)} \<Longrightarrow>
   PaymentMethodComponent E props = None"
  by (simp add: PaymentMethodComponent_def Let_def split del: if_split)

theorem unmatched_selects_null_witness:
  "method_type (props_method (props_of cheque)) \<notin>
     {PPSDK (ProviderType sample_enums), Hosted (ProviderType sample_enums),
      Api (ProviderType sample_enums)} \<and>
   method_method (props_method (props_of cheque)) \<notin>
     {Paypal (MethodType sample_enums), PaypalCredit (MethodType sample_enums),
      CreditCard (MethodType sample_enums)} \<and>
   PaymentMethodComponent sample_enums (props_of cheque) = None"
proof -
  have h1: "method_type (props_method (props_of cheque)) \<notin>
     {PPSDK (ProviderType sample_enums), Hosted (ProviderType sample_enums),
      Api (ProviderType sample_enums)}"
    by (simp add: input_defs sample_defs)
  have h2: "method_id (props_method (props_of cheque)) \<notin>
     {SquareV2 (Id sample_enums), AmazonPay (Id sample_enums),
      CCAvenueMars (Id sample_enums), ChasePay (Id sample_enums),
      Masterpass (Id sample_enums), Braintree (Id sample_enums),
      PaypalCommerceCreditCards (Id sample_enums), PaypalExpress (Id sample_enums),
      PaypalPaymentsPro (Id sample_enums), Moneris (Id sample_enums),
      WorldpayAccess (Id sample_enums), BraintreeVenmo (Id sample_enums),
      Humm (Id sample_enums), Laybuy (Id sample_enums), Quadpay (Id sample_enums),
      Sezzle (Id sample_enums), Zip (Id sample_enums), Opy (Id sample_enums)}"
    by (simp add: input_defs sample_defs)
  have h3: "method_gateway (props_method (props_of cheque)) \<notin>
     {Some (StripeV3 (Id sample_enums)), Some (StripeUPE (Id sample_enums)),
      Some (Checkoutcom (Id sample_enums)), Some (Afterpay (Id sample_enums)),
      Some (Clearpay (Id sample_enums))}"
    by (simp add: input_defs sample_defs)
  have h4: "method_method (props_method (props_of cheque)) \<notin>
     {Paypal (MethodType sample_enums), PaypalCredit (MethodType sample_enums),
      CreditCard (MethodType sample_enums)}"
    by (simp add: input_defs sample_defs)
  from unmatched_selects_null [OF h1 h2 h3 h4] h1 h4 show ?thesis
    by blast
qed

subsection \<open>What the selection depends on\<close>

text \<open>
  C8. The component selected depends on the \<open>id\<close>, \<open>gateway\<close>, \<open>type\<close> and \<open>method\<close>
  of the descriptor only: two props whose descriptors agree on these four fields get the
  same component, or \<open>null\<close> both, whatever else the descriptors and the props hold.
\<close>

theorem selection_depends_on_four_fields:
  "method_id (props_method p) = method_id (props_method q) \<Longrightarrow>
   method_gateway (props_method p) = method_gateway (props_method q) \<Longrightarrow>
   method_type (props_method p) = method_type (props_method q) \<Longrightarrow>
   method_method (props_method p) = method_method (props_method q) \<Longrightarrow>
   map_option el_type (PaymentMethodComponent E p) =
     map_option el_type (PaymentMethodComponent E q)"
  by (simp add: PaymentMethodComponent_def Let_def jsx_def
        if_distrib [of "map_option f" for f]
      split del: if_split cong del: if_weak_cong)

theorem selection_depends_on_four_fields_witness:
  "props_of moneris_card \<noteq> props_initializing moneris_card \<and>
   map_option el_type (PaymentMethodComponent sample_enums (props_of moneris_card)) =
     map_option el_type
       (PaymentMethodComponent sample_enums (props_initializing moneris_card))"
proof -
  have h0: "props_of moneris_card \<noteq> props_initializing moneris_card"
    by (simp add: props_of_def props_initializing_def)
  have h1: "method_id (props_method (props_of moneris_card)) =
      method_id (props_method (props_initializing moneris_card))"
    by (simp add: props_of_def props_initializing_def)
  have h2: "method_gateway (props_method (props_of moneris_card)) =
      method_gateway (props_method (props_initializing moneris_card))"
    by (simp add: props_of_def props_initializing_def)
  have h3: "method_type (props_method (props_of moneris_card)) =
      method_type (props_method (props_initializing moneris_card))"
    by (simp add: props_of_def props_initializing_def)
  have h4: "method_method (props_method (props_of moneris_card)) =
      method_method (props_method (props_initializing moneris_card))"
    by (simp add: props_of_def props_initializing_def)
  from h0 selection_depends_on_four_fields [OF h1 h2 h3 h4] show ?thesis
    by (rule conjI)
qed

subsection \<open>The props of the selected element\<close>

text \<open>
  C9. Whenever the selector returns an element, the props of the element are the props the
  selector was given: every branch spreads \<open>props\<close> and nothing else.
\<close>

theorem selected_element_has_props:
  "PaymentMethodComponent E props = Some el \<Longrightarrow> el_props el = props"
  using selector_first_match [of E props]
  by (auto simp: jsx_def)

theorem selected_element_has_props_witness:
  "PaymentMethodComponent sample_enums (props_of moneris_card) =
     Some (jsx MonerisPaymentMethod (props_of moneris_card)) \<and>
   el_props (jsx MonerisPaymentMethod (props_of moneris_card)) = props_of moneris_card"
proof -
  have h: "PaymentMethodComponent sample_enums (props_of moneris_card) =
     Some (jsx MonerisPaymentMethod (props_of moneris_card))"
    by (simp add: PaymentMethodComponent_def input_defs sample_defs split del: if_split)
  from h selected_element_has_props [OF h] show ?thesis
    by (rule conjI)
qed

section \<open>The props injected from the checkout context\<close>

text \<open>
  C10. The flag \<open>isInitializing\<close> is the query \<open>isInitializingPayment\<close> of the checkout
  state at the id of the descriptor of the props, and the four callbacks are the methods
  of the same names of the checkout service.
\<close>

theorem map_props_from_context:
  "isInitializing (mapToWithCheckoutPaymentMethodProps context props) =
     isInitializingPayment (statuses (checkoutState context)) (method_id (props_method props)) \<and>
   WithCheckoutPaymentMethodProps.deinitializeCustomer
       (mapToWithCheckoutPaymentMethodProps context props) =
     CheckoutService.deinitializeCustomer (checkoutService context) \<and>
   WithCheckoutPaymentMethodProps.deinitializePayment
       (mapToWithCheckoutPaymentMethodProps context props) =
     CheckoutService.deinitializePayment (checkoutService context) \<and>
   WithCheckoutPaymentMethodProps.initializeCustomer
       (mapToWithCheckoutPaymentMethodProps context props) =
     CheckoutService.initializeCustomer (checkoutService context) \<and>
   WithCheckoutPaymentMethodProps.initializePayment
       (mapToWithCheckoutPaymentMethodProps context props) =
     CheckoutService.initializePayment (checkoutService context)"
  by (simp add: mapToWithCheckoutPaymentMethodProps_def Let_def)

end
